theory Spec2Isabelle
  imports Main
begin

section \<open>The file-sharing server of server.js\<close>

text \<open>
  The server keeps one array of file records in memory (\<open>fileDatabase\<close>), mirrors it
  into \<open>database.json\<close> after every change, and keeps the uploaded bytes in the
  directory \<open>uploads\<close>. Each route handler is embedded as a function from the request
  and the server state to the response and the new state. What a handler reads from
  outside (the clock, the identifier generator) is an argument of its model.

  Conventions of the embedding:
  \<^item> instants (\<open>Date\<close> objects, ISO strings, \<open>Date.now()\<close>) are milliseconds since the
    epoch, an \<open>int\<close>; \<open>new Date(x)\<close> of a stored date is that same instant;
  \<^item> \<open>size\<close> and \<open>downloadCount\<close> are natural numbers: a counter that starts at 0
    and grows by 1 stays far below \<open>2^53\<close>, where a JavaScript number is an exact integer;
  \<^item> strings are byte strings, the UTF-8 form of the JavaScript string; a lone surrogate
    is the three bytes \<open>ED A0..BF 80..BF\<close>, which no well-formed UTF-8 text contains;
  \<^item> file-system writes succeed; the headers of a response are those the handler sets;
  \<^item> the handlers are embedded for a store that is an array of file records, which is
    what every upload, visit and deletion leaves behind;
  \<^item> no file under \<open>public\<close> has the path of a route, so the static middleware
    passes every request on to its handler.
\<close>

subsection \<open>Data\<close>

text \<open>The object built at lines 69-78; \<open>id\<close> and \<open>size\<close> carry a suffix.\<close>

record fileInfo =
  id_rec :: string
  filename :: string
  storedName :: string
  size_rec :: nat
  mimeType :: string
  uploadDate :: int
  downloadCount :: nat
  expiresAt :: int

text \<open>\<open>req.file\<close> as multer leaves it (the fields the handler reads).\<close>

record multer_file =
  originalname :: string
  filename_file :: string
  size_file :: nat
  mimetype :: string

record request =
  protocol :: string
  host :: string
  file_req :: "multer_file option"
  params_id :: string

text \<open>
  The text of \<open>database.json\<close> is represented by what \<open>JSON.parse\<close> makes of it:
  \<open>Records rs\<close> is a text that parses to the array \<open>rs\<close> of file records,
  \<open>Other_json t\<close> a text \<open>t\<close> that parses to anything else (\<open>null\<close>, \<open>{}\<close>,
  \<open>42\<close>, \<open>[null]\<close>), and \<open>Unparsable\<close> a text the parser rejects.
\<close>

datatype document = Records "fileInfo list" | Other_json string | Unparsable

text \<open>
  The value of the variable \<open>fileDatabase\<close> after startup: an array of file records,
  or the value that \<open>JSON.parse\<close> returned for the text \<open>t\<close>.
\<close>

datatype store = Record_array "fileInfo list" | Other_value string

record server =
  fileDatabase :: "fileInfo list"
  database_json :: "document option"
  uploads :: "string \<Rightarrow> string option"

datatype js_error =
  ReferenceError string | ENOENT | SyntaxError | ERR_INVALID_CHAR string | URIError

datatype header_value = Str string | Num nat

datatype body =
    Json_error string
  | Json_upload fileInfo string string
  | Json_deleted
  | Html_not_found
  | Html_expired
  | Html_download string nat int nat string
  | Text string
  | File_stream string

record response =
  status :: nat
  headers :: "(string \<times> header_value) list"
  body :: body

subsection \<open>Array and string operations of JavaScript\<close>

text \<open>\<open>Array.prototype.findIndex\<close>: the first position that satisfies \<open>P\<close>, or -1.\<close>

fun findIndex :: "('a \<Rightarrow> bool) \<Rightarrow> 'a list \<Rightarrow> int" where
  "findIndex P [] = - 1"
| "findIndex P (x # xs) =
     (if P x then 0 else (let i = findIndex P xs in if i = - 1 then - 1 else i + 1))"

text \<open>\<open>xs.splice(i, 1)\<close> for an index inside the array.\<close>

definition splice1 :: "nat \<Rightarrow> 'a list \<Rightarrow> 'a list" where
  "splice1 i xs = take i xs @ drop (Suc i) xs"

definition endsWith :: "string \<Rightarrow> string \<Rightarrow> bool" where
  "endsWith s t = (length t \<le> length s \<and> drop (length s - length t) s = t)"

definition hex_digit :: "nat \<Rightarrow> char" where
  "hex_digit n = ''0123456789ABCDEF'' ! (n mod 16)"

definition unreserved :: "char \<Rightarrow> bool" where
  "unreserved c =
     (c \<in> set ''ABCDEFGHIJKLMNOPQRSTUVWXYZabcdefghijklmnopqrstuvwxyz0123456789-_.!~*()''
      \<or> c = CHR 0x27)"

text \<open>
  Well-formed UTF-8 (the byte ranges of the Unicode standard): one byte below \<open>80\<close>, or
  a lead byte with its continuation bytes, without overlong forms, surrogates
  (\<open>ED A0..BF\<close>) and code points above \<open>10FFFF\<close>.
\<close>

definition continuation :: "nat \<Rightarrow> bool" where
  "continuation b = (0x80 \<le> b \<and> b \<le> 0xBF)"

definition second_of_three :: "nat \<Rightarrow> nat \<Rightarrow> bool" where
  "second_of_three a b =
     (if a = 0xE0 then 0xA0 \<le> b \<and> b \<le> 0xBF
      else if a = 0xED then 0x80 \<le> b \<and> b \<le> 0x9F
      else continuation b)"

definition second_of_four :: "nat \<Rightarrow> nat \<Rightarrow> bool" where
  "second_of_four a b =
     (if a = 0xF0 then 0x90 \<le> b \<and> b \<le> 0xBF
      else if a = 0xF4 then 0x80 \<le> b \<and> b \<le> 0x8F
      else continuation b)"

fun well_formed_utf8 :: "nat list \<Rightarrow> bool" where
  "well_formed_utf8 [] = True"
| "well_formed_utf8 (a # bs) =
     (if a < 0x80 then well_formed_utf8 bs
      else if 0xC2 \<le> a \<and> a \<le> 0xDF then
        (case bs of
           b # cs \<Rightarrow> continuation b \<and> well_formed_utf8 cs
         | _ \<Rightarrow> False)
      else if 0xE0 \<le> a \<and> a \<le> 0xEF then
        (case bs of
           b # c # ds \<Rightarrow> second_of_three a b \<and> continuation c \<and> well_formed_utf8 ds
         | _ \<Rightarrow> False)
      else if 0xF0 \<le> a \<and> a \<le> 0xF4 then
        (case bs of
           b # c # d # es \<Rightarrow>
             second_of_four a b \<and> continuation c \<and> continuation d \<and> well_formed_utf8 es
         | _ \<Rightarrow> False)
      else False)"

text \<open>
  \<open>encodeURIComponent\<close>: a string with a lone surrogate raises \<open>URIError\<close>; otherwise
  letters, digits and \<open>- _ . ! ~ * ' ( )\<close> stay and every other byte of the UTF-8 form
  becomes \<open>%XX\<close>.
\<close>

definition encode_byte :: "char \<Rightarrow> string" where
  "encode_byte c =
     (if unreserved c then [c]
      else [CHR ''%'', hex_digit (of_char c div 16), hex_digit (of_char c)])"

definition percent_encode :: "string \<Rightarrow> string" where
  "percent_encode s = concat (map encode_byte s)"

definition encodeURIComponent :: "string \<Rightarrow> js_error + string" where
  "encodeURIComponent s =
     (if well_formed_utf8 (map of_char s) then Inr (percent_encode s) else Inl URIError)"

text \<open>
  \<open>res.setHeader\<close> of Node: a value with a character outside tab, \<open>20..7E\<close> and
  \<open>80..FF\<close> raises \<open>ERR_INVALID_CHAR\<close>. On the UTF-8 form the characters \<open>80..FF\<close>
  are the two-byte sequences with lead byte \<open>C2\<close> or \<open>C3\<close>; every longer sequence is a
  character above \<open>FF\<close>. A number is set as its decimal text. The header is added to
  those set so far (the handler sets each name once).
\<close>

fun valid_header_bytes :: "nat list \<Rightarrow> bool" where
  "valid_header_bytes [] = True"
| "valid_header_bytes (a # bs) =
     (if a < 0x80 then (a = 9 \<or> (0x20 \<le> a \<and> a \<le> 0x7E)) \<and> valid_header_bytes bs
      else if a = 0xC2 \<or> a = 0xC3 then
        (case bs of
           b # cs \<Rightarrow> continuation b \<and> valid_header_bytes cs
         | _ \<Rightarrow> False)
      else False)"

definition printable :: "char \<Rightarrow> bool" where
  "printable c = (0x20 \<le> (of_char c :: nat) \<and> (of_char c :: nat) \<le> 0x7E)"

definition valid_header_value :: "header_value \<Rightarrow> bool" where
  "valid_header_value v =
     (case v of Str s \<Rightarrow> valid_header_bytes (map of_char s) | Num n \<Rightarrow> True)"

definition setHeader ::
  "string \<Rightarrow> header_value \<Rightarrow> (string \<times> header_value) list
     \<Rightarrow> js_error + (string \<times> header_value) list" where
  "setHeader name v hs =
     (if valid_header_value v then Inr (hs @ [(name, v)]) else Inl (ERR_INVALID_CHAR name))"

subsection \<open>The metadata store\<close>

definition readFileSync :: "document option \<Rightarrow> js_error + document" where
  "readFileSync f = (case f of None \<Rightarrow> Inl ENOENT | Some d \<Rightarrow> Inr d)"

definition JSON_parse :: "document \<Rightarrow> js_error + store" where
  "JSON_parse d =
     (case d of
        Unparsable \<Rightarrow> Inl SyntaxError
      | Records rs \<Rightarrow> Inr (Record_array rs)
      | Other_json t \<Rightarrow> Inr (Other_value t))"

text \<open>
  Lines 45-51: the \<open>try\<close> covers both the read and the parse, and the \<open>catch\<close> sets
  the empty array. Whatever \<open>JSON.parse\<close> returns is assigned as it is.
\<close>

definition load_fileDatabase :: "document option \<Rightarrow> store" where
  "load_fileDatabase f =
     (case readFileSync f of
        Inl err \<Rightarrow> Record_array []
      | Inr data \<Rightarrow> (case JSON_parse data of Inl err \<Rightarrow> Record_array [] | Inr v \<Rightarrow> v))"

definition saveDatabase :: "server \<Rightarrow> server" where
  "saveDatabase st = st\<lparr>database_json := Some (Records (fileDatabase st))\<rparr>"

subsection \<open>POST /api/upload\<close>

definition seven_days :: int where
  "seven_days = 7 * 24 * 60 * 60 * 1000"

text \<open>
  \<open>new_id\<close> is what \<open>shortid.generate()\<close> returns, \<open>t1\<close> the instant read by
  \<open>new Date()\<close> for \<open>uploadDate\<close>, \<open>t2\<close> the instant read by \<open>Date.now()\<close> for
  \<open>expiresAt\<close>.
\<close>

definition post_api_upload ::
  "string \<Rightarrow> int \<Rightarrow> int \<Rightarrow> request \<Rightarrow> server \<Rightarrow> response \<times> server" where
  "post_api_upload new_id t1 t2 req st =
     (case file_req req of
        None \<Rightarrow> (\<lparr>status = 400, headers = [], body = Json_error ''No file uploaded''\<rparr>, st)
      | Some f \<Rightarrow>
          (let info = \<lparr>id_rec = new_id, filename = originalname f,
                        storedName = filename_file f, size_rec = size_file f,
                        mimeType = mimetype f, uploadDate = t1, downloadCount = 0,
                        expiresAt = t2 + seven_days\<rparr>;
               st1 = saveDatabase (st\<lparr>fileDatabase := fileDatabase st @ [info]\<rparr>);
               downloadUrl = protocol req @ ''://'' @ host req @ ''/d/'' @ id_rec info
           in (\<lparr>status = 200, headers = [],
                body = Json_upload info downloadUrl
                  (protocol req @ ''://'' @ host req @ ''/download/'' @ id_rec info)\<rparr>,
               st1)))"

subsection \<open>GET /d/:id\<close>

text \<open>
  The names in scope where the template literal of the handler is evaluated: the
  handler's own parameters and constants, the \<open>const\<close>, \<open>let\<close> and \<open>function\<close>
  declarations of the module, and the names of Node's module wrapper and global object
  that the file uses. The function \<open>formatBytes\<close> of lines 349-356 is text inside the
  template literal sent to the browser; the server declares it nowhere.
\<close>

definition handler_scope :: "string list" where
  "handler_scope = [''req'', ''res'', ''fileInfo'', ''filePath'', ''safeFilename'']"

definition module_scope :: "string list" where
  "module_scope = [''express'', ''multer'', ''cors'', ''path'', ''fs'', ''shortid'', ''app'',
     ''UPLOADS_DIR'', ''storage'', ''upload'', ''fileDatabase'', ''saveDatabase'', ''PORT'']"

definition node_scope :: "string list" where
  "node_scope = [''require'', ''__dirname'', ''process'', ''console'', ''Date'', ''JSON'',
     ''encodeURIComponent'']"

definition resolve :: "string \<Rightarrow> js_error + unit" where
  "resolve name =
     (if name \<in> set (handler_scope @ module_scope @ node_scope) then Inr ()
      else Inl (ReferenceError name))"

text \<open>
  The template literal of lines 151-360. Its interpolations are evaluated on the server,
  in order; \<open>${formatBytes(fileInfo.size)}\<close> first resolves the identifier. The page
  carries the values it embeds: name, size, upload date, download count and the id of
  the link \<open>/api/download/${fileInfo.id}\<close>.
\<close>

definition download_page :: "fileInfo \<Rightarrow> js_error + body" where
  "download_page info =
     (case resolve ''formatBytes'' of
        Inl err \<Rightarrow> Inl err
      | Inr _ \<Rightarrow> Inr (Html_download (filename info) (size_rec info) (uploadDate info)
                        (downloadCount info) (id_rec info)))"

text \<open>
  \<open>find\<close> returns the array element itself, so \<open>fileInfo.downloadCount++\<close> changes
  the array at the position of the first match. \<open>now\<close> is the instant read by
  \<open>new Date()\<close> at line 123.
\<close>

definition get_d :: "int \<Rightarrow> request \<Rightarrow> server \<Rightarrow> response \<times> server" where
  "get_d now req st =
     (case find (\<lambda>f. id_rec f = params_id req) (fileDatabase st) of
        None \<Rightarrow> (\<lparr>status = 404, headers = [], body = Html_not_found\<rparr>, st)
      | Some info \<Rightarrow>
          if expiresAt info < now
          then (\<lparr>status = 410, headers = [], body = Html_expired\<rparr>, st)
          else
            (let info' = info\<lparr>downloadCount := downloadCount info + 1\<rparr>;
                 i = nat (findIndex (\<lambda>f. id_rec f = params_id req) (fileDatabase st));
                 st1 = saveDatabase (st\<lparr>fileDatabase := (fileDatabase st)[i := info']\<rparr>)
             in (case download_page info' of
                   Inl err \<Rightarrow>
                     (\<lparr>status = 500, headers = [], body = Text ''Internal server error''\<rparr>, st1)
                 | Inr page \<Rightarrow> (\<lparr>status = 200, headers = [], body = page\<rparr>, st1))))"

subsection \<open>GET /api/download/:id\<close>

text \<open>
  Lines 368-395. The two 404 answers return before anything can throw. After them the
  \<open>try\<close> sets the three headers and pipes the blob; \<open>setHeader\<close> at line 383 and
  \<open>encodeURIComponent\<close> at line 384 can throw, and the \<open>catch\<close> at line 391 then
  answers 500 on the same response object, which keeps the headers set before the throw.
\<close>

definition download_failed :: "(string \<times> header_value) list \<Rightarrow> response" where
  "download_failed hs = \<lparr>status = 500, headers = hs, body = Json_error ''Download failed''\<rparr>"

definition get_api_download :: "request \<Rightarrow> server \<Rightarrow> response \<times> server" where
  "get_api_download req st =
     (case find (\<lambda>f. id_rec f = params_id req) (fileDatabase st) of
        None \<Rightarrow> (\<lparr>status = 404, headers = [], body = Json_error ''File not found''\<rparr>, st)
      | Some info \<Rightarrow>
          (case uploads st (storedName info) of
             None \<Rightarrow>
               (\<lparr>status = 404, headers = [], body = Json_error ''File not found on server''\<rparr>, st)
           | Some bytes \<Rightarrow>
               (case setHeader ''Content-Type'' (Str (mimeType info)) [] of
                  Inl err \<Rightarrow> (download_failed [], st)
                | Inr h1 \<Rightarrow>
                    (case encodeURIComponent (filename info) of
                       Inl err \<Rightarrow> (download_failed h1, st)
                     | Inr name \<Rightarrow>
                         (case setHeader ''Content-Disposition''
                                 (Str (''attachment; filename='' @ [CHR 0x22] @ name @ [CHR 0x22]))
                                 h1 of
                            Inl err \<Rightarrow> (download_failed h1, st)
                          | Inr h2 \<Rightarrow>
                              (case setHeader ''Content-Length'' (Num (size_rec info)) h2 of
                                 Inl err \<Rightarrow> (download_failed h2, st)
                               | Inr h3 \<Rightarrow>
                                   (\<lparr>status = 200, headers = h3,
                                     body = File_stream bytes\<rparr>, st)))))))"

subsection \<open>DELETE /api/files/:id\<close>

definition unlinkSync :: "string \<Rightarrow> (string \<Rightarrow> string option) \<Rightarrow> (string \<Rightarrow> string option)" where
  "unlinkSync name dir = dir(name := None)"

definition delete_api_files :: "request \<Rightarrow> server \<Rightarrow> response \<times> server" where
  "delete_api_files req st =
     (let index = findIndex (\<lambda>f. id_rec f = params_id req) (fileDatabase st)
      in if index = - 1
         then (\<lparr>status = 404, headers = [], body = Json_error ''File not found''\<rparr>, st)
         else
           (let info = fileDatabase st ! nat index;
                dir = (if uploads st (storedName info) \<noteq> None
                       then unlinkSync (storedName info) (uploads st) else uploads st);
                st1 = saveDatabase
                        (st\<lparr>uploads := dir, fileDatabase := splice1 (nat index) (fileDatabase st)\<rparr>)
            in (\<lparr>status = 200, headers = [], body = Json_deleted\<rparr>, st1)))"

subsection \<open>A concrete server\<close>

text \<open>
  Two records, the blob of the second one missing from the directory, and two requests;
  the theorems below are replayed on them.
\<close>

definition info_a :: fileInfo where
  "info_a = \<lparr>id_rec = ''abc'', filename = ''a b.txt'', storedName = ''k3x.txt'', size_rec = 10,
     mimeType = ''text/plain'', uploadDate = 1000, downloadCount = 0, expiresAt = 604801000\<rparr>"

definition info_b :: fileInfo where
  "info_b = \<lparr>id_rec = ''def'', filename = ''b.bin'', storedName = ''q7w.bin'', size_rec = 3,
     mimeType = ''application/octet-stream'', uploadDate = 2000, downloadCount = 4,
     expiresAt = 604802000\<rparr>"

definition server0 :: server where
  "server0 = \<lparr>fileDatabase = [info_a, info_b],
     database_json = Some (Records [info_a, info_b]),
     uploads = [''k3x.txt'' \<mapsto> ''0123456789'']\<rparr>"

text \<open>
  A record whose stored \<open>mimeType\<close> ends in a line feed, with its blob in place; and a
  store in which two records carry one id, each with its blob.
\<close>

definition info_c :: fileInfo where
  "info_c = \<lparr>id_rec = ''ghi'', filename = ''c.txt'', storedName = ''m4c.txt'', size_rec = 3,
     mimeType = ''text/plain'' @ [CHR 0x0A], uploadDate = 3000, downloadCount = 0,
     expiresAt = 604803000\<rparr>"

definition server_c :: server where
  "server_c = \<lparr>fileDatabase = [info_c], database_json = Some (Records [info_c]),
     uploads = [''m4c.txt'' \<mapsto> ''abc'']\<rparr>"

definition info_d :: fileInfo where
  "info_d = \<lparr>id_rec = ''abc'', filename = ''d.txt'', storedName = ''t8d.txt'', size_rec = 2,
     mimeType = ''text/plain'', uploadDate = 4000, downloadCount = 0,
     expiresAt = 604804000\<rparr>"

definition server_d :: server where
  "server_d = \<lparr>fileDatabase = [info_a, info_d], database_json = Some (Records [info_a, info_d]),
     uploads = [''k3x.txt'' \<mapsto> ''0123456789'', ''t8d.txt'' \<mapsto> ''hi'']\<rparr>"

definition req0 :: "string \<Rightarrow> request" where
  "req0 i = \<lparr>protocol = ''http'', host = ''localhost:3000'', file_req = None, params_id = i\<rparr>"

definition upload0 :: request where
  "upload0 = \<lparr>protocol = ''http'', host = ''localhost:3000'',
     file_req = Some \<lparr>originalname = ''a.txt'', filename_file = ''p9z.txt'', size_file = 10,
                      mimetype = ''text/plain''\<rparr>,
     params_id = []\<rparr>"

section \<open>Lookup by position\<close>

text \<open>
  \<open>find\<close> and \<open>findIndex\<close> scan the array in the same order: the element \<open>find\<close>
  returns is the one at the position \<open>findIndex\<close> returns.
\<close>

lemma findIndex_ge: "- 1 \<le> findIndex P xs"
  by (induction xs) (auto simp: Let_def)

lemma findIndex_none: "(findIndex P xs = - 1) = (find P xs = None)"
proof (induction xs)
  case Nil
  show ?case by simp
next
  case (Cons x xs)
  have "- 1 \<le> findIndex P xs" by (rule findIndex_ge)
  with Cons show ?case by (auto simp: Let_def)
qed

lemma findIndex_some:
  "find P xs = Some x \<Longrightarrow>
     0 \<le> findIndex P xs \<and> nat (findIndex P xs) < length xs \<and> xs ! nat (findIndex P xs) = x"
proof (induction xs)
  case Nil
  then show ?case by simp
next
  case (Cons y ys)
  show ?case
  proof (cases "P y")
    case True
    with Cons.prems show ?thesis by simp
  next
    case False
    with Cons.prems have f: "find P ys = Some x" by simp
    from Cons.IH [OF f] False show ?thesis
      by (auto simp: Let_def nat_add_distrib)
  qed
qed

lemma findIndex_first: "j < nat (findIndex P xs) \<Longrightarrow> \<not> P (xs ! j)"
proof (induction xs arbitrary: j)
  case Nil
  then show ?case by simp
next
  case (Cons y ys)
  show ?case
  proof (cases "P y")
    case True
    with Cons.prems show ?thesis by simp
  next
    case False
    note ny = this
    show ?thesis
    proof (cases j)
      case 0
      with ny show ?thesis by simp
    next
      case (Suc k)
      from Cons.prems ny have "findIndex P ys \<noteq> - 1"
        by (auto simp: Let_def split: if_splits)
      with Cons.prems ny Suc have "k < nat (findIndex P ys)"
        by (auto simp: Let_def)
      from Cons.IH [OF this] Suc show ?thesis by simp
    qed
  qed
qed

lemma find_update_first:
  "find P xs = Some x \<Longrightarrow> P y \<Longrightarrow> find P (xs[nat (findIndex P xs) := y]) = Some y"
proof (induction xs)
  case Nil
  then show ?case by simp
next
  case (Cons z zs)
  show ?case
  proof (cases "P z")
    case True
    with Cons.prems show ?thesis by simp
  next
    case False
    with Cons.prems have f: "find P zs = Some x" by simp
    from findIndex_some [OF f] have "0 \<le> findIndex P zs" by simp
    with Cons.IH [OF f Cons.prems(2)] False show ?thesis
      by (auto simp: Let_def nat_add_distrib)
  qed
qed

lemma findIndex_update_first:
  "find P xs = Some x \<Longrightarrow> P y \<Longrightarrow> findIndex P (xs[nat (findIndex P xs) := y]) = findIndex P xs"
proof (induction xs)
  case Nil
  then show ?case by simp
next
  case (Cons z zs)
  show ?case
  proof (cases "P z")
    case True
    with Cons.prems show ?thesis by simp
  next
    case False
    with Cons.prems have f: "find P zs = Some x" by simp
    from findIndex_some [OF f] have "0 \<le> findIndex P zs" by simp
    with Cons.IH [OF f Cons.prems(2)] False show ?thesis
      by (auto simp: Let_def nat_add_distrib)
  qed
qed

lemma find_splice1_single:
  "length (filter P xs) = 1 \<Longrightarrow> find P xs = Some x \<Longrightarrow>
     find P (splice1 (nat (findIndex P xs)) xs) = None"
proof (induction xs)
  case Nil
  then show ?case by simp
next
  case (Cons z zs)
  show ?case
  proof (cases "P z")
    case True
    with Cons.prems(1) have "filter P zs = []" by simp
    then have "find P zs = None" by (simp add: find_None_iff filter_empty_conv)
    with True show ?thesis by (simp add: splice1_def)
  next
    case False
    with Cons.prems have f: "find P zs = Some x" and l: "length (filter P zs) = 1" by simp_all
    from findIndex_some [OF f] have ge: "0 \<le> findIndex P zs" by simp
    from Cons.IH [OF l f] False ge show ?thesis
      by (auto simp: Let_def nat_add_distrib splice1_def)
  qed
qed

lemma distinct_single:
  "distinct (map f xs) \<Longrightarrow> find (\<lambda>r. f r = k) xs = Some x \<Longrightarrow>
     length (filter (\<lambda>r. f r = k) xs) = 1"
proof (induction xs)
  case Nil
  then show ?case by simp
next
  case (Cons z zs)
  show ?case
  proof (cases "f z = k")
    case True
    with Cons.prems(1) have "\<forall>r \<in> set zs. f r \<noteq> k" by (auto simp: image_iff)
    then have "filter (\<lambda>r. f r = k) zs = []" by (simp add: filter_empty_conv)
    with True show ?thesis by simp
  next
    case False
    with Cons show ?thesis by simp
  qed
qed

lemma find_none_unknown:
  "k \<notin> f ` set xs \<Longrightarrow> find (\<lambda>r. f r = k) xs = None"
  by (auto simp: find_None_iff)

section \<open>URL encoding\<close>

text \<open>
  An encoded name consists of unreserved characters and \<open>%\<close> only, so it cannot end
  the quoted \<open>filename\<close> parameter of the header and \<open>setHeader\<close> accepts the
  \<open>Content-Disposition\<close> value built from it; a name of unreserved characters is its
  own encoding.
\<close>

lemma hex_digits_unreserved:
  "list_all (\<lambda>k. unreserved (''0123456789ABCDEF'' ! k)) [0..<16]"
  by code_simp

lemma hex_digit_unreserved: "unreserved (hex_digit n)"
proof -
  have "n mod 16 \<in> set [0..<16]" by simp
  with hex_digits_unreserved show ?thesis
    unfolding hex_digit_def list_all_iff by blast
qed

lemma encode_byte_chars: "c \<in> set (encode_byte b) \<Longrightarrow> unreserved c \<or> c = CHR ''%''"
  using hex_digit_unreserved by (auto simp: encode_byte_def split: if_splits)

lemma percent_encode_chars:
  "c \<in> set (percent_encode s) \<Longrightarrow> unreserved c \<or> c = CHR ''%''"
  using encode_byte_chars by (auto simp: percent_encode_def)

lemma percent_encode_unreserved:
  "\<forall>c \<in> set s. unreserved c \<Longrightarrow> percent_encode s = s"
  by (induction s) (simp_all add: percent_encode_def encode_byte_def)

lemma printable_valid_header_bytes:
  "\<forall>c \<in> set s. printable c \<Longrightarrow> valid_header_bytes (map of_char s)"
  by (induction s) (auto simp: printable_def)

lemma unreserved_printable: "unreserved c \<Longrightarrow> printable c"
  by (auto simp: unreserved_def printable_def)

lemma content_disposition_valid:
  "valid_header_value
     (Str (''attachment; filename='' @ [CHR 0x22] @ percent_encode s @ [CHR 0x22]))"
proof -
  have "printable c" if "c \<in> set (percent_encode s)" for c
    using percent_encode_chars [OF that] unreserved_printable
    by (auto simp: printable_def)
  then have "\<forall>c \<in> set (''attachment; filename='' @ [CHR 0x22] @ percent_encode s @ [CHR 0x22]).
      printable c"
    by (auto simp: printable_def)
  then show ?thesis
    unfolding valid_header_value_def by (simp add: printable_valid_header_bytes del: map_append)
qed

section \<open>The ids stay distinct\<close>

text \<open>
  The store never holds two records with one id as long as \<open>shortid.generate()\<close>
  returns an id that no record carries: no handler changes an id, and the upload is the
  only one that adds a record.
\<close>

lemma splice1_distinct: "distinct ys \<Longrightarrow> distinct (splice1 i ys)"
  unfolding splice1_def
  by (simp add: set_take_disj_set_drop_if_distinct)

lemma map_splice1: "map f (splice1 i xs) = splice1 i (map f xs)"
  by (simp add: splice1_def take_map drop_map)

lemma post_api_upload_ids_distinct:
  "distinct (map id_rec (fileDatabase st)) \<Longrightarrow> new_id \<notin> id_rec ` set (fileDatabase st) \<Longrightarrow>
     distinct (map id_rec (fileDatabase (snd (post_api_upload new_id t1 t2 req st))))"
  by (simp add: post_api_upload_def saveDatabase_def Let_def split: option.split)

lemma get_d_ids:
  "map id_rec (fileDatabase (snd (get_d now req st))) = map id_rec (fileDatabase st)"
proof (cases "find (\<lambda>f. id_rec f = params_id req) (fileDatabase st)")
  case None
  then show ?thesis by (simp add: get_d_def)
next
  case (Some info)
  from findIndex_some [OF Some]
  have i: "nat (findIndex (\<lambda>f. id_rec f = params_id req) (fileDatabase st)) < length (fileDatabase st)"
    "fileDatabase st ! nat (findIndex (\<lambda>f. id_rec f = params_id req) (fileDatabase st)) = info"
    by simp_all
  then have "(map id_rec (fileDatabase st))
      [nat (findIndex (\<lambda>f. id_rec f = params_id req) (fileDatabase st)) := id_rec info] =
      map id_rec (fileDatabase st)"
    by (metis list_update_id map_update)
  with Some show ?thesis
    by (simp add: get_d_def saveDatabase_def Let_def map_update split: sum.split)
qed

lemma delete_api_files_ids_distinct:
  "distinct (map id_rec (fileDatabase st)) \<Longrightarrow>
     distinct (map id_rec (fileDatabase (snd (delete_api_files req st))))"
  by (simp add: delete_api_files_def saveDatabase_def Let_def map_splice1 splice1_distinct)

section \<open>What the landing page evaluates\<close>

lemma get_d_status: "status (fst (get_d now req st)) \<in> {404, 410, 500}"
  by (simp add: get_d_def Let_def download_page_def resolve_def handler_scope_def
      module_scope_def node_scope_def split: option.split)

lemma resolve_formatBytes: "resolve ''formatBytes'' = Inl (ReferenceError ''formatBytes'')"
  by (simp add: resolve_def handler_scope_def module_scope_def node_scope_def)

lemma saveDatabase_load:
  "load_fileDatabase (database_json (saveDatabase st)) = Record_array (fileDatabase st)"
  by (simp add: load_fileDatabase_def readFileSync_def JSON_parse_def saveDatabase_def)

section \<open>The upload\<close>

text \<open>
  C1. The response of a successful upload carries \<open>downloadUrl\<close>, which is
  \<open>protocol://host/d/{id}\<close>, and \<open>directDownloadUrl\<close>, which the handler builds as
  \<open>protocol://host/download/{id}\<close>, where \<open>{id}\<close> is the id of the record just
  appended. The second URL has no \<open>/api\<close> segment: on \<open>localhost:3000\<close> it does not
  end in \<open>/api/download/{id}\<close>, the path of the direct-download route.
\<close>

theorem post_api_upload_urls:
  assumes up: "file_req req = Some f"
  shows "\<exists>info.
           fst (post_api_upload new_id t1 t2 req st) =
             \<lparr>status = 200, headers = [],
              body = Json_upload info
                (protocol req @ ''://'' @ host req @ ''/d/'' @ new_id)
                (protocol req @ ''://'' @ host req @ ''/download/'' @ new_id)\<rparr> \<and>
           id_rec info = new_id \<and>
           fileDatabase (snd (post_api_upload new_id t1 t2 req st)) = fileDatabase st @ [info]"
  using up by (simp add: post_api_upload_def saveDatabase_def Let_def)

theorem post_api_upload_urls_witness:
  "file_req upload0 = Some \<lparr>originalname = ''a.txt'', filename_file = ''p9z.txt'',
                             size_file = 10, mimetype = ''text/plain''\<rparr> \<and>
   (\<exists>info. body (fst (post_api_upload ''xyz'' 7000 7001 upload0 server0)) =
      Json_upload info ''http://localhost:3000/d/xyz'' ''http://localhost:3000/download/xyz'') \<and>
   endsWith ''http://localhost:3000/d/xyz'' ''/d/xyz'' \<and>
   \<not> endsWith ''http://localhost:3000/download/xyz'' ''/api/download/xyz''"
proof -
  have h: "file_req upload0 = Some \<lparr>originalname = ''a.txt'', filename_file = ''p9z.txt'',
                             size_file = 10, mimetype = ''text/plain''\<rparr>"
    by (simp add: upload0_def)
  from post_api_upload_urls [OF h, of "''xyz''" 7000 7001 server0]
  obtain info where
    "fst (post_api_upload ''xyz'' 7000 7001 upload0 server0) =
       \<lparr>status = 200, headers = [],
        body = Json_upload info
          (protocol upload0 @ ''://'' @ host upload0 @ ''/d/'' @ ''xyz'')
          (protocol upload0 @ ''://'' @ host upload0 @ ''/download/'' @ ''xyz'')\<rparr>"
    by blast
  then have b: "body (fst (post_api_upload ''xyz'' 7000 7001 upload0 server0)) =
      Json_upload info ''http://localhost:3000/d/xyz'' ''http://localhost:3000/download/xyz''"
    by (simp add: upload0_def)
  have e1: "endsWith ''http://localhost:3000/d/xyz'' ''/d/xyz''"
    by (simp add: endsWith_def)
  have e2: "\<not> endsWith ''http://localhost:3000/download/xyz'' ''/api/download/xyz''"
    by (simp add: endsWith_def)
  from h b e1 e2 show ?thesis by blast
qed

text \<open>
  C7. A successful upload appends exactly one record. Its \<open>filename\<close>, \<open>size\<close> and
  \<open>mimeType\<close> are those of the uploaded file and its \<open>downloadCount\<close> is 0. Its
  \<open>expiresAt\<close> is the second clock reading plus 7 days and its \<open>uploadDate\<close> the
  first, so \<open>expiresAt\<close> differs from \<open>uploadDate\<close> + 7 days by the time between the
  two readings: by less than a minute when they are less than a minute apart. The
  document then holds the new sequence.
\<close>

theorem post_api_upload_appends_record:
  assumes up: "file_req req = Some f"
  shows "\<exists>info.
           fileDatabase (snd (post_api_upload new_id t1 t2 req st)) = fileDatabase st @ [info] \<and>
           id_rec info = new_id \<and>
           filename info = originalname f \<and>
           storedName info = filename_file f \<and>
           size_rec info = size_file f \<and>
           mimeType info = mimetype f \<and>
           downloadCount info = 0 \<and>
           uploadDate info = t1 \<and>
           expiresAt info - (uploadDate info + 7 * 24 * 60 * 60 * 1000) = t2 - t1 \<and>
           (t1 \<le> t2 \<and> t2 - t1 < 60000 \<longrightarrow>
              \<bar>expiresAt info - (uploadDate info + 7 * 24 * 60 * 60 * 1000)\<bar> < 60000) \<and>
           database_json (snd (post_api_upload new_id t1 t2 req st)) =
             Some (Records (fileDatabase st @ [info])) \<and>
           uploads (snd (post_api_upload new_id t1 t2 req st)) = uploads st"
  using up by (simp add: post_api_upload_def saveDatabase_def seven_days_def Let_def)

theorem post_api_upload_appends_record_witness:
  "file_req upload0 = Some \<lparr>originalname = ''a.txt'', filename_file = ''p9z.txt'',
                             size_file = 10, mimetype = ''text/plain''\<rparr> \<and>
   (7000::int) \<le> 7001 \<and> (7001::int) - 7000 < 60000 \<and>
   fileDatabase (snd (post_api_upload ''xyz'' 7000 7001 upload0 server0)) =
     [info_a, info_b,
      \<lparr>id_rec = ''xyz'', filename = ''a.txt'', storedName = ''p9z.txt'', size_rec = 10,
       mimeType = ''text/plain'', uploadDate = 7000, downloadCount = 0,
       expiresAt = 604807001\<rparr>]"
proof -
  have h: "file_req upload0 = Some \<lparr>originalname = ''a.txt'', filename_file = ''p9z.txt'',
                             size_file = 10, mimetype = ''text/plain''\<rparr>"
    by (simp add: upload0_def)
  from post_api_upload_appends_record [OF h, of "''xyz''" 7000 7001 server0]
  obtain info where
    db: "fileDatabase (snd (post_api_upload ''xyz'' 7000 7001 upload0 server0)) =
           fileDatabase server0 @ [info]"
    and f: "id_rec info = ''xyz''" "filename info = ''a.txt''" "size_rec info = 10"
      "storedName info = ''p9z.txt''"
      "mimeType info = ''text/plain''" "downloadCount info = 0" "uploadDate info = 7000"
    and e: "expiresAt info - (uploadDate info + 7 * 24 * 60 * 60 * 1000) = 7001 - 7000"
    by auto
  have "info = \<lparr>id_rec = ''xyz'', filename = ''a.txt'', storedName = ''p9z.txt'', size_rec = 10,
       mimeType = ''text/plain'', uploadDate = 7000, downloadCount = 0,
       expiresAt = 604807001\<rparr>"
    using f e by (cases info) simp
  with db h show ?thesis by (simp add: server0_def)
qed

section \<open>The landing page\<close>

text \<open>
  C2. For a record that exists and is not expired, \<open>/d/{id}\<close> does not answer 200
  with the landing page: the template calls \<open>formatBytes\<close>, which the server does not
  declare, the \<open>ReferenceError\<close> is caught at line 361 and the answer is 500 with the
  text \<open>Internal server error\<close>.
\<close>

theorem get_d_fresh_record_responds_500:
  assumes found: "find (\<lambda>f. id_rec f = params_id req) (fileDatabase st) = Some info"
    and fresh: "\<not> expiresAt info < now"
  shows "fst (get_d now req st) =
           \<lparr>status = 500, headers = [], body = Text ''Internal server error''\<rparr>"
  using found fresh
  by (simp add: get_d_def Let_def download_page_def resolve_def handler_scope_def
      module_scope_def node_scope_def)

theorem get_d_fresh_record_responds_500_witness:
  "find (\<lambda>f. id_rec f = params_id (req0 ''abc'')) (fileDatabase server0) = Some info_a \<and>
   \<not> expiresAt info_a < 5000 \<and>
   fst (get_d 5000 (req0 ''abc'') server0) =
     \<lparr>status = 500, headers = [], body = Text ''Internal server error''\<rparr>"
proof -
  have h1: "find (\<lambda>f. id_rec f = params_id (req0 ''abc'')) (fileDatabase server0) = Some info_a"
    by (simp add: server0_def req0_def info_a_def info_b_def)
  have h2: "\<not> expiresAt info_a < 5000" by (simp add: info_a_def)
  from get_d_fresh_record_responds_500 [OF h1 h2] h1 h2 show ?thesis by blast
qed

text \<open>
  C3. A visit of \<open>/d/{id}\<close> whose record exists and is not expired adds exactly 1 to
  the \<open>downloadCount\<close> of that record (the first one with the id) and changes nothing
  else: every other field of the record, every other record and the blob directory stay
  as they were. A second such visit finds the counter 2 higher than at the start.
\<close>

theorem get_d_increments_downloadCount:
  assumes found: "find (\<lambda>f. id_rec f = params_id req) (fileDatabase st) = Some info"
    and fresh: "\<not> expiresAt info < now"
  shows "(\<exists>i < length (fileDatabase st).
            fileDatabase st ! i = info \<and>
            (\<forall>j < i. id_rec (fileDatabase st ! j) \<noteq> params_id req) \<and>
            fileDatabase (snd (get_d now req st)) =
              (fileDatabase st)[i := info\<lparr>downloadCount := downloadCount info + 1\<rparr>]) \<and>
         uploads (snd (get_d now req st)) = uploads st \<and>
         find (\<lambda>f. id_rec f = params_id req) (fileDatabase (snd (get_d now req st))) =
           Some (info\<lparr>downloadCount := downloadCount info + 1\<rparr>) \<and>
         (\<not> expiresAt info < now2 \<longrightarrow>
            find (\<lambda>f. id_rec f = params_id req)
              (fileDatabase (snd (get_d now2 req (snd (get_d now req st))))) =
              Some (info\<lparr>downloadCount := downloadCount info + 2\<rparr>))"
proof -
  let ?P = "\<lambda>f. id_rec f = params_id req"
  let ?i = "nat (findIndex ?P (fileDatabase st))"
  let ?info1 = "info\<lparr>downloadCount := downloadCount info + 1\<rparr>"
  let ?st1 = "snd (get_d now req st)"
  from findIndex_some [OF found]
  have i: "?i < length (fileDatabase st)" "fileDatabase st ! ?i = info" by simp_all
  have first: "\<forall>j < ?i. id_rec (fileDatabase st ! j) \<noteq> params_id req"
    using findIndex_first [of _ ?P "fileDatabase st"] by blast
  have db1: "fileDatabase ?st1 = (fileDatabase st)[?i := ?info1]"
    using found fresh
    by (simp add: get_d_def saveDatabase_def Let_def split: sum.split)
  have up1: "uploads ?st1 = uploads st"
    using found fresh
    by (simp add: get_d_def saveDatabase_def Let_def split: sum.split)
  from found have "?P info" by (auto dest: find_Some_iff [THEN iffD1])
  then have P1: "?P ?info1" by simp
  have f1: "find ?P (fileDatabase ?st1) = Some ?info1"
    unfolding db1 by (rule find_update_first [OF found P1])
  have two: "find ?P (fileDatabase (snd (get_d now2 req ?st1))) =
      Some (info\<lparr>downloadCount := downloadCount info + 2\<rparr>)"
    if fresh2: "\<not> expiresAt info < now2"
  proof -
    let ?info2 = "?info1\<lparr>downloadCount := downloadCount ?info1 + 1\<rparr>"
    from fresh2 have fr: "\<not> expiresAt ?info1 < now2" by simp
    have "fileDatabase (snd (get_d now2 req ?st1)) =
        (fileDatabase ?st1)[nat (findIndex ?P (fileDatabase ?st1)) := ?info2]"
      using f1 fr
      by (simp add: get_d_def saveDatabase_def Let_def split: sum.split)
    moreover have "?P ?info2" using P1 by simp
    ultimately have "find ?P (fileDatabase (snd (get_d now2 req ?st1))) = Some ?info2"
      using find_update_first [OF f1] by simp
    then show ?thesis by simp
  qed
  from i first db1 up1 f1 two show ?thesis by blast
qed

theorem get_d_increments_downloadCount_witness:
  "find (\<lambda>f. id_rec f = params_id (req0 ''abc'')) (fileDatabase server0) = Some info_a \<and>
   \<not> expiresAt info_a < 5000 \<and> \<not> expiresAt info_a < 6000 \<and>
   find (\<lambda>f. id_rec f = params_id (req0 ''abc''))
     (fileDatabase (snd (get_d 5000 (req0 ''abc'') server0))) =
     Some (info_a\<lparr>downloadCount := 1\<rparr>) \<and>
   find (\<lambda>f. id_rec f = params_id (req0 ''abc''))
     (fileDatabase (snd (get_d 6000 (req0 ''abc'') (snd (get_d 5000 (req0 ''abc'') server0))))) =
     Some (info_a\<lparr>downloadCount := 2\<rparr>)"
proof -
  have h1: "find (\<lambda>f. id_rec f = params_id (req0 ''abc'')) (fileDatabase server0) = Some info_a"
    by (simp add: server0_def req0_def info_a_def info_b_def)
  have h2: "\<not> expiresAt info_a < 5000" by (simp add: info_a_def)
  have h3: "\<not> expiresAt info_a < 6000" by (simp add: info_a_def)
  have c0: "downloadCount info_a = 0" by (simp add: info_a_def)
  from get_d_increments_downloadCount [OF h1 h2, of 6000] h1 h2 h3 c0
  show ?thesis by simp
qed

text \<open>
  C4. When the record exists and its \<open>expiresAt\<close> is strictly earlier than the instant
  of the request, \<open>/d/{id}\<close> answers 410 with the expired page and the server state
  (records, document and blobs) is left as it was: the counter is not incremented.
\<close>

theorem get_d_expired:
  assumes found: "find (\<lambda>f. id_rec f = params_id req) (fileDatabase st) = Some info"
    and expired: "expiresAt info < now"
  shows "get_d now req st = (\<lparr>status = 410, headers = [], body = Html_expired\<rparr>, st)"
  using found expired by (simp add: get_d_def)

theorem get_d_expired_witness:
  "find (\<lambda>f. id_rec f = params_id (req0 ''def'')) (fileDatabase server0) = Some info_b \<and>
   expiresAt info_b < 604802001 \<and>
   status (fst (get_d 604802001 (req0 ''def'') server0)) = 410 \<and>
   snd (get_d 604802001 (req0 ''def'') server0) = server0 \<and>
   status (fst (get_d 604802000 (req0 ''def'') server0)) \<noteq> 410"
proof -
  have h1: "find (\<lambda>f. id_rec f = params_id (req0 ''def'')) (fileDatabase server0) = Some info_b"
    by (simp add: server0_def req0_def info_a_def info_b_def)
  have h2: "expiresAt info_b < 604802001" by (simp add: info_b_def)
  have edge: "status (fst (get_d 604802000 (req0 ''def'') server0)) \<noteq> 410"
    by (simp add: get_d_def server0_def req0_def info_a_def info_b_def Let_def
        download_page_def resolve_def handler_scope_def module_scope_def node_scope_def)
  from get_d_expired [OF h1 h2] h1 h2 edge show ?thesis by simp
qed

text \<open>
  C10. The landing-page handler never looks at the blob directory: its response is the
  same, and its effect on the records and the document is the same, whatever the
  directory holds. For a record that exists and is not expired but whose blob is gone, a
  visit still adds 1 to \<open>downloadCount\<close> and saves the store, and the answer is not 404.
\<close>

theorem get_d_ignores_blob:
  "(find (\<lambda>f. id_rec f = params_id req) (fileDatabase st) = Some info \<and>
    \<not> expiresAt info < now \<and> uploads st (storedName info) = None \<longrightarrow>
      status (fst (get_d now req st)) \<noteq> 404 \<and>
      find (\<lambda>f. id_rec f = params_id req) (fileDatabase (snd (get_d now req st))) =
        Some (info\<lparr>downloadCount := downloadCount info + 1\<rparr>) \<and>
      database_json (snd (get_d now req st)) =
        Some (Records (fileDatabase (snd (get_d now req st))))) \<and>
   fst (get_d now req (st\<lparr>uploads := dir\<rparr>)) = fst (get_d now req st) \<and>
   snd (get_d now req (st\<lparr>uploads := dir\<rparr>)) = (snd (get_d now req st))\<lparr>uploads := dir\<rparr>"
proof (intro conjI impI)
  let ?P = "\<lambda>f. id_rec f = params_id req"
  let ?st' = "snd (get_d now req st)"
  show "fst (get_d now req (st\<lparr>uploads := dir\<rparr>)) = fst (get_d now req st)"
    by (simp add: get_d_def saveDatabase_def Let_def split: option.split sum.split)
  show "snd (get_d now req (st\<lparr>uploads := dir\<rparr>)) = ?st'\<lparr>uploads := dir\<rparr>"
    by (simp add: get_d_def saveDatabase_def Let_def split: option.split sum.split)
  assume a: "find ?P (fileDatabase st) = Some info \<and> \<not> expiresAt info < now \<and>
    uploads st (storedName info) = None"
  then have found: "find ?P (fileDatabase st) = Some info" and fresh: "\<not> expiresAt info < now"
    by simp_all
  show "status (fst (get_d now req st)) \<noteq> 404"
    using found fresh by (simp add: get_d_def Let_def split: sum.split)
  have db: "fileDatabase ?st' = (fileDatabase st)[nat (findIndex ?P (fileDatabase st)) :=
      info\<lparr>downloadCount := downloadCount info + 1\<rparr>]"
    using found fresh by (simp add: get_d_def saveDatabase_def Let_def split: sum.split)
  from found have "?P info" by (auto dest: find_Some_iff [THEN iffD1])
  then have "?P (info\<lparr>downloadCount := downloadCount info + 1\<rparr>)" by simp
  from find_update_first [OF found this]
  show "find ?P (fileDatabase ?st') = Some (info\<lparr>downloadCount := downloadCount info + 1\<rparr>)"
    unfolding db .
  show "database_json ?st' = Some (Records (fileDatabase ?st'))"
    using found fresh by (simp add: get_d_def saveDatabase_def Let_def split: sum.split)
qed

theorem get_d_ignores_blob_witness:
  "find (\<lambda>f. id_rec f = params_id (req0 ''def'')) (fileDatabase server0) = Some info_b \<and>
   \<not> expiresAt info_b < 5000 \<and> uploads server0 (storedName info_b) = None \<and>
   status (fst (get_d 5000 (req0 ''def'') server0)) \<noteq> 404 \<and>
   find (\<lambda>f. id_rec f = params_id (req0 ''def''))
     (fileDatabase (snd (get_d 5000 (req0 ''def'') server0))) =
     Some (info_b\<lparr>downloadCount := 5\<rparr>) \<and>
   database_json (snd (get_d 5000 (req0 ''def'') server0)) =
     Some (Records (fileDatabase (snd (get_d 5000 (req0 ''def'') server0))))"
proof -
  have h1: "find (\<lambda>f. id_rec f = params_id (req0 ''def'')) (fileDatabase server0) = Some info_b"
    by (simp add: server0_def req0_def info_a_def info_b_def)
  have h2: "\<not> expiresAt info_b < 5000" by (simp add: info_b_def)
  have h3: "uploads server0 (storedName info_b) = None"
    by (simp add: server0_def info_b_def)
  have c: "downloadCount info_b = 4" by (simp add: info_b_def)
  from get_d_ignores_blob [of "req0 ''def''" server0 info_b 5000] h1 h2 h3 c
  show ?thesis by simp
qed

section \<open>The direct download\<close>

text \<open>
  At the record \<open>info_c\<close>, which exists and has its blob in the directory,
  \<open>/api/download/ghi\<close> does not stream the blob: the stored \<open>mimeType\<close> ends in a
  line feed, \<open>setHeader\<close> rejects it and the answer is 500 with the JSON error
  \<open>Download failed\<close>.
\<close>

theorem get_api_download_rejected_mimeType:
  "fileDatabase server_c = [info_c] \<and> id_rec info_c = ''ghi'' \<and>
   uploads server_c (storedName info_c) = Some ''abc'' \<and>
   fst (get_api_download (req0 ''ghi'') server_c) =
     \<lparr>status = 500, headers = [], body = Json_error ''Download failed''\<rparr>"
  by (simp add: get_api_download_def server_c_def info_c_def req0_def setHeader_def
      valid_header_value_def download_failed_def)

text \<open>
  C5. When the record exists, its blob is in the directory, the stored \<open>mimeType\<close> is
  a value \<open>setHeader\<close> accepts and the stored \<open>filename\<close> has no lone surrogate,
  \<open>/api/download/{id}\<close> answers 200 and streams the blob with \<open>Content-Type\<close> the
  stored \<open>mimeType\<close>, \<open>Content-Disposition: attachment\<close> with the URL-encoded
  original name and \<open>Content-Length\<close> the stored \<open>size\<close>. When the record and the
  blob exist but the \<open>mimeType\<close> or the \<open>filename\<close> is not so, the answer is 500 with
  the JSON error \<open>Download failed\<close>. The handler reads no clock and nothing is assumed
  of \<open>expiresAt\<close>, so an expired record is served too; in every case the state, and
  with it every \<open>downloadCount\<close>, is returned unchanged.
\<close>

theorem get_api_download_streams:
  "(find (\<lambda>f. id_rec f = params_id req) (fileDatabase st) = Some info \<and>
    uploads st (storedName info) = Some bytes \<longrightarrow>
      (valid_header_value (Str (mimeType info)) \<and>
       well_formed_utf8 (map of_char (filename info)) \<longrightarrow>
         fst (get_api_download req st) =
           \<lparr>status = 200,
            headers = [(''Content-Type'', Str (mimeType info)),
                       (''Content-Disposition'',
                        Str (''attachment; filename='' @ [CHR 0x22]
                             @ percent_encode (filename info) @ [CHR 0x22])),
                       (''Content-Length'', Num (size_rec info))],
            body = File_stream bytes\<rparr>) \<and>
      (\<not> (valid_header_value (Str (mimeType info)) \<and>
          well_formed_utf8 (map of_char (filename info))) \<longrightarrow>
         status (fst (get_api_download req st)) = 500 \<and>
         body (fst (get_api_download req st)) = Json_error ''Download failed'')) \<and>
   snd (get_api_download req st) = st"
proof (intro conjI impI)
  show "snd (get_api_download req st) = st"
    by (simp add: get_api_download_def split: option.split sum.split)
next
  assume a: "find (\<lambda>f. id_rec f = params_id req) (fileDatabase st) = Some info \<and>
    uploads st (storedName info) = Some bytes"
  assume ok: "valid_header_value (Str (mimeType info)) \<and>
    well_formed_utf8 (map of_char (filename info))"
  have len: "valid_header_value (Num (size_rec info))"
    by (simp add: valid_header_value_def)
  from a ok len content_disposition_valid [of "filename info"]
  show "fst (get_api_download req st) =
      \<lparr>status = 200,
       headers = [(''Content-Type'', Str (mimeType info)),
                  (''Content-Disposition'',
                   Str (''attachment; filename='' @ [CHR 0x22]
                        @ percent_encode (filename info) @ [CHR 0x22])),
                  (''Content-Length'', Num (size_rec info))],
       body = File_stream bytes\<rparr>"
    by (simp add: get_api_download_def setHeader_def encodeURIComponent_def)
next
  assume a: "find (\<lambda>f. id_rec f = params_id req) (fileDatabase st) = Some info \<and>
    uploads st (storedName info) = Some bytes"
  assume bad: "\<not> (valid_header_value (Str (mimeType info)) \<and>
    well_formed_utf8 (map of_char (filename info)))"
  from a bad show "status (fst (get_api_download req st)) = 500"
    by (auto simp: get_api_download_def setHeader_def encodeURIComponent_def
        download_failed_def)
  from a bad show "body (fst (get_api_download req st)) = Json_error ''Download failed''"
    by (auto simp: get_api_download_def setHeader_def encodeURIComponent_def
        download_failed_def)
qed

theorem get_api_download_streams_witness:
  "find (\<lambda>f. id_rec f = params_id (req0 ''abc'')) (fileDatabase server0) = Some info_a \<and>
   uploads server0 (storedName info_a) = Some ''0123456789'' \<and>
   valid_header_value (Str (mimeType info_a)) \<and>
   well_formed_utf8 (map of_char (filename info_a)) \<and>
   expiresAt info_a < 700000000 \<and>
   status (fst (get_d 700000000 (req0 ''abc'') server0)) = 410 \<and>
   get_api_download (req0 ''abc'') server0 =
     (\<lparr>status = 200,
       headers = [(''Content-Type'', Str ''text/plain''),
                  (''Content-Disposition'', Str (''attachment; filename='' @ [CHR 0x22]
                        @ ''a%20b.txt'' @ [CHR 0x22])),
                  (''Content-Length'', Num 10)],
       body = File_stream ''0123456789''\<rparr>, server0) \<and>
   find (\<lambda>f. id_rec f = params_id (req0 ''ghi'')) (fileDatabase server_c) = Some info_c \<and>
   uploads server_c (storedName info_c) = Some ''abc'' \<and>
   \<not> (valid_header_value (Str (mimeType info_c)) \<and>
      well_formed_utf8 (map of_char (filename info_c))) \<and>
   status (fst (get_api_download (req0 ''ghi'') server_c)) = 500"
proof -
  have h1: "find (\<lambda>f. id_rec f = params_id (req0 ''abc'')) (fileDatabase server0) = Some info_a"
    by (simp add: server0_def req0_def info_a_def info_b_def)
  have h2: "uploads server0 (storedName info_a) = Some ''0123456789''"
    by (simp add: server0_def info_a_def)
  have h3: "valid_header_value (Str (mimeType info_a))"
    by (simp add: info_a_def valid_header_value_def)
  have h4: "well_formed_utf8 (map of_char (filename info_a))"
    by (simp add: info_a_def)
  have h5: "expiresAt info_a < 700000000" by (simp add: info_a_def)
  have gone: "status (fst (get_d 700000000 (req0 ''abc'') server0)) = 410"
    using h1 h5 by (simp add: get_d_def)
  have enc: "percent_encode (filename info_a) = ''a%20b.txt''"
    by (simp add: info_a_def percent_encode_def encode_byte_def unreserved_def hex_digit_def)
  have fields: "mimeType info_a = ''text/plain''" "size_rec info_a = 10"
    by (simp_all add: info_a_def)
  have k1: "find (\<lambda>f. id_rec f = params_id (req0 ''ghi'')) (fileDatabase server_c) = Some info_c"
    by (simp add: server_c_def req0_def info_c_def)
  have k2: "uploads server_c (storedName info_c) = Some ''abc''"
    by (simp add: server_c_def info_c_def)
  have k3: "\<not> (valid_header_value (Str (mimeType info_c)) \<and>
      well_formed_utf8 (map of_char (filename info_c)))"
    by (simp add: info_c_def valid_header_value_def)
  note a = get_api_download_streams [of "req0 ''abc''" server0 info_a "''0123456789''"]
  note c = get_api_download_streams [of "req0 ''ghi''" server_c info_c "''abc''"]
  have a1: "fst (get_api_download (req0 ''abc'') server0) =
      \<lparr>status = 200,
       headers = [(''Content-Type'', Str ''text/plain''),
                  (''Content-Disposition'', Str (''attachment; filename='' @ [CHR 0x22]
                        @ ''a%20b.txt'' @ [CHR 0x22])),
                  (''Content-Length'', Num 10)],
       body = File_stream ''0123456789''\<rparr>"
    using a [THEN conjunct1, THEN mp, OF conjI [OF h1 h2], THEN conjunct1, THEN mp,
        OF conjI [OF h3 h4]] enc fields
    by simp
  have a2: "snd (get_api_download (req0 ''abc'') server0) = server0"
    by (rule a [THEN conjunct2])
  have a3: "get_api_download (req0 ''abc'') server0 =
      (\<lparr>status = 200,
       headers = [(''Content-Type'', Str ''text/plain''),
                  (''Content-Disposition'', Str (''attachment; filename='' @ [CHR 0x22]
                        @ ''a%20b.txt'' @ [CHR 0x22])),
                  (''Content-Length'', Num 10)],
       body = File_stream ''0123456789''\<rparr>, server0)"
    using a1 a2 by (simp add: prod_eq_iff)
  have c1: "status (fst (get_api_download (req0 ''ghi'') server_c)) = 500"
    by (rule c [THEN conjunct1, THEN mp, OF conjI [OF k1 k2], THEN conjunct2, THEN mp,
        OF k3, THEN conjunct1])
  show ?thesis
    using h1 h2 h3 h4 h5 gone a3 k1 k2 k3 c1 by (intro conjI)
qed

section \<open>Not found\<close>

text \<open>
  C6. For an id that no record carries, \<open>/d/{id}\<close> answers 404 with the not-found page
  and \<open>/api/download/{id}\<close> answers 404 with a JSON error; when the record exists but
  its blob is missing from the directory, \<open>/api/download/{id}\<close> answers 404 with a JSON
  error as well. The state is unchanged in all three cases.
\<close>

theorem unknown_id_or_missing_blob_404:
  "(params_id req \<notin> id_rec ` set (fileDatabase st) \<longrightarrow>
      get_d now req st = (\<lparr>status = 404, headers = [], body = Html_not_found\<rparr>, st) \<and>
      get_api_download req st =
        (\<lparr>status = 404, headers = [], body = Json_error ''File not found''\<rparr>, st)) \<and>
   (find (\<lambda>f. id_rec f = params_id req) (fileDatabase st) = Some info \<and>
    uploads st (storedName info) = None \<longrightarrow>
      get_api_download req st =
        (\<lparr>status = 404, headers = [], body = Json_error ''File not found on server''\<rparr>, st))"
  by (auto simp: get_d_def get_api_download_def dest: find_none_unknown)

theorem unknown_id_or_missing_blob_404_witness:
  "params_id (req0 ''zzz'') \<notin> id_rec ` set (fileDatabase server0) \<and>
   status (fst (get_d 5000 (req0 ''zzz'') server0)) = 404 \<and>
   body (fst (get_d 5000 (req0 ''zzz'') server0)) = Html_not_found \<and>
   get_api_download (req0 ''zzz'') server0 =
     (\<lparr>status = 404, headers = [], body = Json_error ''File not found''\<rparr>, server0) \<and>
   find (\<lambda>f. id_rec f = params_id (req0 ''def'')) (fileDatabase server0) = Some info_b \<and>
   uploads server0 (storedName info_b) = None \<and>
   get_api_download (req0 ''def'') server0 =
     (\<lparr>status = 404, headers = [], body = Json_error ''File not found on server''\<rparr>, server0)"
proof -
  have h1: "params_id (req0 ''zzz'') \<notin> id_rec ` set (fileDatabase server0)"
    by (simp add: server0_def req0_def info_a_def info_b_def)
  have h2: "find (\<lambda>f. id_rec f = params_id (req0 ''def'')) (fileDatabase server0) = Some info_b"
    by (simp add: server0_def req0_def info_a_def info_b_def)
  have h3: "uploads server0 (storedName info_b) = None"
    by (simp add: server0_def info_b_def)
  from unknown_id_or_missing_blob_404 [of "req0 ''zzz''" server0 5000]
    unknown_id_or_missing_blob_404 [of "req0 ''def''" server0 _ info_b] h1 h2 h3
  show ?thesis by simp
qed

section \<open>Startup\<close>

text \<open>
  A document with the text \<open>null\<close> is present and the parser accepts it, and the
  store at process start is then neither the empty sequence nor a sequence of records:
  it is the value \<open>null\<close>.
\<close>

theorem load_fileDatabase_null:
  "load_fileDatabase (Some (Other_json ''null'')) = Other_value ''null'' \<and>
   load_fileDatabase (Some (Other_json ''null'')) \<noteq> Record_array []"
  by (simp add: load_fileDatabase_def readFileSync_def JSON_parse_def)

text \<open>
  C8. At process start the store is the empty sequence when \<open>database.json\<close> is absent
  and when \<open>JSON.parse\<close> rejects its text; no error leaves the \<open>try\<close>. When the text
  parses to an array of records the store is that whole sequence, as it is for the
  document every save writes. When the text parses to anything else the store is that
  value, without fallback.
\<close>

theorem load_fileDatabase_fallback:
  "load_fileDatabase None = Record_array [] \<and>
   load_fileDatabase (Some Unparsable) = Record_array [] \<and>
   load_fileDatabase (Some (Records rs)) = Record_array rs \<and>
   load_fileDatabase (database_json (saveDatabase st)) = Record_array (fileDatabase st) \<and>
   load_fileDatabase (Some (Other_json t)) = Other_value t"
  by (simp add: load_fileDatabase_def readFileSync_def JSON_parse_def saveDatabase_def)

section \<open>Deletion\<close>

text \<open>
  In the store \<open>server_d\<close> two records carry the id \<open>abc\<close>, each with its blob. The
  deletion of \<open>abc\<close> succeeds and removes the first of them; the download of \<open>abc\<close>
  that follows finds the second and answers 200, not 404.
\<close>

theorem delete_api_files_duplicate_id:
  "fileDatabase server_d = [info_a, info_d] \<and> id_rec info_a = ''abc'' \<and>
   id_rec info_d = ''abc'' \<and>
   fst (delete_api_files (req0 ''abc'') server_d) =
     \<lparr>status = 200, headers = [], body = Json_deleted\<rparr> \<and>
   fileDatabase (snd (delete_api_files (req0 ''abc'') server_d)) = [info_d] \<and>
   status (fst (get_api_download (req0 ''abc'')
     (snd (delete_api_files (req0 ''abc'') server_d)))) = 200"
  by (simp add: delete_api_files_def get_api_download_def server_d_def info_a_def info_d_def
      req0_def saveDatabase_def splice1_def unlinkSync_def Let_def setHeader_def
      valid_header_value_def encodeURIComponent_def percent_encode_def encode_byte_def
      unreserved_def)

text \<open>
  C9. \<open>DELETE /api/files/{id}\<close> for an id that no record carries answers 404 with a
  JSON error and leaves the state unchanged. When a record has the id, the answer is the
  success message, the blob of the first such record is removed from the directory
  (nothing happens to the directory when it was already absent), that record is removed
  from the sequence and the document holds the new sequence. When no other record
  carries the id, a later \<open>/api/download/{id}\<close> or \<open>/d/{id}\<close> answers 404.
\<close>

theorem delete_api_files_effect:
  "(params_id req \<notin> id_rec ` set (fileDatabase st) \<longrightarrow>
      delete_api_files req st =
        (\<lparr>status = 404, headers = [], body = Json_error ''File not found''\<rparr>, st)) \<and>
   (find (\<lambda>f. id_rec f = params_id req) (fileDatabase st) = Some info \<longrightarrow>
      fst (delete_api_files req st) = \<lparr>status = 200, headers = [], body = Json_deleted\<rparr> \<and>
      (\<exists>i < length (fileDatabase st).
         fileDatabase st ! i = info \<and>
         (\<forall>j < i. id_rec (fileDatabase st ! j) \<noteq> params_id req) \<and>
         fileDatabase (snd (delete_api_files req st)) =
           take i (fileDatabase st) @ drop (Suc i) (fileDatabase st)) \<and>
      uploads (snd (delete_api_files req st)) = (uploads st)(storedName info := None) \<and>
      (uploads st (storedName info) = None \<longrightarrow>
         uploads (snd (delete_api_files req st)) = uploads st) \<and>
      database_json (snd (delete_api_files req st)) =
        Some (Records (fileDatabase (snd (delete_api_files req st)))) \<and>
      (length (filter (\<lambda>f. id_rec f = params_id req) (fileDatabase st)) = 1 \<longrightarrow>
         fst (get_api_download req (snd (delete_api_files req st))) =
           \<lparr>status = 404, headers = [], body = Json_error ''File not found''\<rparr> \<and>
         fst (get_d now req (snd (delete_api_files req st))) =
           \<lparr>status = 404, headers = [], body = Html_not_found\<rparr>))"
proof (intro conjI impI)
  let ?P = "\<lambda>f. id_rec f = params_id req"
  let ?i = "nat (findIndex ?P (fileDatabase st))"
  let ?st' = "snd (delete_api_files req st)"
  {
    assume "params_id req \<notin> id_rec ` set (fileDatabase st)"
    then have "find ?P (fileDatabase st) = None" by (rule find_none_unknown)
    then have "findIndex ?P (fileDatabase st) = - 1" by (simp add: findIndex_none)
    then show "delete_api_files req st =
        (\<lparr>status = 404, headers = [], body = Json_error ''File not found''\<rparr>, st)"
      by (simp add: delete_api_files_def)
  }
  assume found: "find ?P (fileDatabase st) = Some info"
  from findIndex_some [OF found]
  have i: "0 \<le> findIndex ?P (fileDatabase st)" "?i < length (fileDatabase st)"
    "fileDatabase st ! ?i = info" by simp_all
  from i(1) have ne: "findIndex ?P (fileDatabase st) \<noteq> - 1" by simp
  show "fst (delete_api_files req st) = \<lparr>status = 200, headers = [], body = Json_deleted\<rparr>"
    using ne by (simp add: delete_api_files_def Let_def)
  have db: "fileDatabase ?st' = splice1 ?i (fileDatabase st)"
    using ne by (simp add: delete_api_files_def Let_def saveDatabase_def)
  have first: "\<forall>j < ?i. id_rec (fileDatabase st ! j) \<noteq> params_id req"
    using findIndex_first [of _ ?P "fileDatabase st"] by blast
  from i first db
  show "\<exists>i < length (fileDatabase st).
         fileDatabase st ! i = info \<and>
         (\<forall>j < i. id_rec (fileDatabase st ! j) \<noteq> params_id req) \<and>
         fileDatabase ?st' = take i (fileDatabase st) @ drop (Suc i) (fileDatabase st)"
    unfolding splice1_def by blast
  show up: "uploads ?st' = (uploads st)(storedName info := None)"
    using ne i(3)
    by (auto simp: delete_api_files_def Let_def saveDatabase_def unlinkSync_def)
  {
    assume "uploads st (storedName info) = None"
    with up show "uploads ?st' = uploads st" by (simp add: fun_upd_idem)
  }
  show "database_json ?st' = Some (Records (fileDatabase ?st'))"
    using ne by (simp add: delete_api_files_def Let_def saveDatabase_def)
  assume d: "length (filter ?P (fileDatabase st)) = 1"
  have gone: "find ?P (fileDatabase ?st') = None"
    unfolding db using find_splice1_single [OF d found] .
  show "fst (get_api_download req ?st') =
      \<lparr>status = 404, headers = [], body = Json_error ''File not found''\<rparr>"
    using gone by (simp add: get_api_download_def)
  show "fst (get_d now req ?st') = \<lparr>status = 404, headers = [], body = Html_not_found\<rparr>"
    using gone by (simp add: get_d_def)
qed

theorem delete_api_files_effect_witness:
  "params_id (req0 ''zzz'') \<notin> id_rec ` set (fileDatabase server0) \<and>
   delete_api_files (req0 ''zzz'') server0 =
     (\<lparr>status = 404, headers = [], body = Json_error ''File not found''\<rparr>, server0) \<and>
   find (\<lambda>f. id_rec f = params_id (req0 ''abc'')) (fileDatabase server0) = Some info_a \<and>
   length (filter (\<lambda>f. id_rec f = params_id (req0 ''abc'')) (fileDatabase server0)) = 1 \<and>
   fst (delete_api_files (req0 ''abc'') server0) =
     \<lparr>status = 200, headers = [], body = Json_deleted\<rparr> \<and>
   uploads (snd (delete_api_files (req0 ''abc'') server0)) ''k3x.txt'' = None \<and>
   status (fst (get_api_download (req0 ''abc'') (snd (delete_api_files (req0 ''abc'') server0))))
     = 404 \<and>
   find (\<lambda>f. id_rec f = params_id (req0 ''def'')) (fileDatabase server0) = Some info_b \<and>
   uploads server0 (storedName info_b) = None \<and>
   uploads (snd (delete_api_files (req0 ''def'') server0)) = uploads server0"
proof -
  have h1: "params_id (req0 ''zzz'') \<notin> id_rec ` set (fileDatabase server0)"
    by (simp add: server0_def req0_def info_a_def info_b_def)
  have h2: "find (\<lambda>f. id_rec f = params_id (req0 ''abc'')) (fileDatabase server0) = Some info_a"
    by (simp add: server0_def req0_def info_a_def info_b_def)
  have h3: "length (filter (\<lambda>f. id_rec f = params_id (req0 ''abc'')) (fileDatabase server0)) = 1"
    by (simp add: server0_def req0_def info_a_def info_b_def)
  have h4: "find (\<lambda>f. id_rec f = params_id (req0 ''def'')) (fileDatabase server0) = Some info_b"
    by (simp add: server0_def req0_def info_a_def info_b_def)
  have h5: "uploads server0 (storedName info_b) = None"
    by (simp add: server0_def info_b_def)
  have sn: "storedName info_a = ''k3x.txt''" by (simp add: info_a_def)
  note unknown = delete_api_files_effect [of "req0 ''zzz''" server0, THEN conjunct1, THEN mp, OF h1]
  note a = delete_api_files_effect [of "req0 ''abc''" server0 info_a 0, THEN conjunct2, THEN mp, OF h2]
  note b = delete_api_files_effect [of "req0 ''def''" server0 info_b 0, THEN conjunct2, THEN mp, OF h4]
  note a1 = a [THEN conjunct1]
  have a3: "uploads (snd (delete_api_files (req0 ''abc'') server0)) ''k3x.txt'' = None"
    using a [THEN conjunct2, THEN conjunct2, THEN conjunct1] sn by simp
  note a6 = a [THEN conjunct2, THEN conjunct2, THEN conjunct2, THEN conjunct2, THEN conjunct2,
      THEN mp, OF h3, THEN conjunct1]
  have a6': "status (fst (get_api_download (req0 ''abc'')
      (snd (delete_api_files (req0 ''abc'') server0)))) = 404"
    using a6 by simp
  note b4 = b [THEN conjunct2, THEN conjunct2, THEN conjunct2, THEN conjunct1, THEN mp, OF h5]
  show ?thesis
    using h1 unknown h2 h3 a1 a3 a6' h4 h5 b4 by (intro conjI)
qed

end
